theory Spec2Isabelle
  imports Main
begin

section \<open>Kubernetes ephemeral storage detection (utils.go)\<close>

text \<open>
  Go's \<^verbatim>\<open>strings.Split(s, sep)\<close> for a separator of one byte: the substrings
  between the occurrences of the separator, in order. A string without the separator
  gives the one-element slice holding the string itself; the empty string gives
  the one-element slice holding the empty string.
\<close>

fun Split :: "string \<Rightarrow> char \<Rightarrow> string list" where
  "Split [] sep = [[]]"
| "Split (c # cs) sep =
     (if c = sep then [] # Split cs sep
      else (c # hd (Split cs sep)) # tl (Split cs sep))"

text \<open>Go's \<^verbatim>\<open>strings.Join\<close>, used to state what \<open>Split\<close> computes.\<close>

fun Join :: "string list \<Rightarrow> char \<Rightarrow> string" where
  "Join [] sep = []"
| "Join [w] sep = w"
| "Join (w # v # ws) sep = w @ sep # Join (v # ws) sep"

definition k8sEmptyDir :: string where
  "k8sEmptyDir = ''kubernetes.io~empty-dir''"

definition IsEphemeralStorage :: "string \<Rightarrow> bool" where
  "IsEphemeralStorage path =
     (let splitSourceSlice = Split path (CHR ''/'') in
      if length splitSourceSlice > 1 then
        (let storageType = splitSourceSlice ! (length splitSourceSlice - 2) in
         if storageType = k8sEmptyDir then True else False)
      else False)"

section \<open>Values shared by the lifecycle code\<close>

text \<open>A Go \<^verbatim>\<open>error\<close> value, by its message; \<open>nil\<close> is \<open>None\<close> of \<open>error option\<close>.\<close>

datatype error = Error string

fun msg :: "error \<Rightarrow> string" where
  "msg (Error m) = m"

text \<open>What a Go call does: it returns, or it panics (nil dereference, closing a
  channel that is nil or already closed).\<close>

datatype 'a go = Returns 'a | Panics

type_synonym StateString = string

text \<open>Modelled from the spec: the constant \<^verbatim>\<open>vc.StateStopped\<close> of the sandbox
  control API, the container state the spec names \<open>stopped\<close>.\<close>

definition StateStopped :: StateString where
  "StateStopped = ''stopped''"

text \<open>Modelled from the spec: the constant \<^verbatim>\<open>oci.StateStopped\<close>, the state
  \<open>stopped\<close> of the externally visible vocabulary \<open>created|running|stopped\<close>.\<close>

definition oci_StateStopped :: string where
  "oci_StateStopped = ''stopped''"

text \<open>\<^verbatim>\<open>syscall.SIGKILL\<close>.\<close>

definition SIGKILL :: nat where
  "SIGKILL = 9"

record ContainerState =
  State_State :: StateString

record ContainerStatus =
  status_State :: ContainerState

record Process =
  Token :: string

type_synonym Cmd = "string list"

text \<open>The three streams \<^verbatim>\<open>IOStream\<close> opens and the adapter \<^verbatim>\<open>newTtyIO\<close>
  builds are opaque handles.\<close>

type_synonym iostreams = "nat \<times> nat \<times> nat"
type_synonym ttyIO = nat

text \<open>\<^verbatim>\<open>task.Status\<close> of the containerd API.\<close>

datatype task_Status =
  StatusUnknown | StatusCreated | StatusRunning | StatusStopped | StatusPaused | StatusPausing

text \<open>A Go channel that is only ever closed here: nil, open or closed.\<close>

datatype chan = ChanNil | ChanOpen | ChanClosed

section \<open>The collaborators\<close>

text \<open>
  Every call that leaves the three functions is recorded, in order, as an event.
  \<open>Infof\<close> and \<open>Warnf\<close> are the logrus entries (\<open>Warnf\<close> with the error attached
  by \<^verbatim>\<open>WithError\<close>); \<open>Go_ioCopy\<close> and \<open>Go_wait\<close> are the launches of the two
  goroutines, whose bodies run elsewhere; \<open>Close_exitIOch\<close> is \<^verbatim>\<open>close(c.exitIOch)\<close>.
\<close>

datatype event =
    Infof string
  | Warnf string error
  | FetchSandbox string
  | Sandbox_StatusContainer string
  | StatusContainer string string
  | KillContainer string string nat bool
  | StopContainer string string
  | DeleteContainer string string
  | UnmountAll string nat
  | Sandbox_GetAllContainers
  | StopSandbox string
  | DeleteSandbox string
  | StartSandbox string
  | StartContainer string string
  | Sandbox_IOStream string string
  | Sandbox_EnterContainer string Cmd
  | Sandbox_WinsizeProcess string string nat nat
  | NewTtyIO string string string bool
  | Go_ioCopy ttyIO iostreams
  | Close_exitIOch
  | Go_wait string string

text \<open>
  A sandbox object (\<^verbatim>\<open>vc.VCSandbox\<close>): its id and what each of its methods answers.
  None of the functions below calls the same method twice in one run, so one answer per
  method (and argument) stands for the answer at the moment of the call.
\<close>

record VCSandbox =
  ID :: string
  sb_StatusContainer :: "string \<Rightarrow> error + ContainerStatus"
  sb_GetAllContainers :: "string list"
  sb_IOStream :: "string \<Rightarrow> string \<Rightarrow> error + iostreams"
  sb_EnterContainer :: "string \<Rightarrow> Cmd \<Rightarrow> error + Process"
  sb_WinsizeProcess :: "string \<Rightarrow> string \<Rightarrow> nat \<Rightarrow> nat \<Rightarrow> error option"

text \<open>
  Everything outside the files at hand, as parameters: the sandbox control API
  \<^verbatim>\<open>vci\<close> (results other than the error are dropped by the callers and left out),
  \<^verbatim>\<open>mount.UnmountAll\<close>, \<^verbatim>\<open>newTtyIO\<close>, the translation
  \<^verbatim>\<open>oci.StateToOCIState\<close>, \<^verbatim>\<open>ContainerType.IsSandbox\<close>, the two path joins,
  and the pid that \<^verbatim>\<open>s.pid()\<close> hands out.
\<close>

record env =
  vci_FetchSandbox :: "string \<Rightarrow> error + VCSandbox"
  vci_StatusContainer :: "string \<Rightarrow> string \<Rightarrow> error + ContainerStatus"
  vci_KillContainer :: "string \<Rightarrow> string \<Rightarrow> nat \<Rightarrow> bool \<Rightarrow> error option"
  vci_StopContainer :: "string \<Rightarrow> string \<Rightarrow> error option"
  vci_DeleteContainer :: "string \<Rightarrow> string \<Rightarrow> error option"
  vci_StopSandbox :: "string \<Rightarrow> error option"
  vci_DeleteSandbox :: "string \<Rightarrow> error option"
  vci_StartSandbox :: "string \<Rightarrow> error option"
  vci_StartContainer :: "string \<Rightarrow> string \<Rightarrow> error option"
  mount_UnmountAll :: "string \<Rightarrow> nat \<Rightarrow> error option"
  newTtyIO :: "string \<Rightarrow> string \<Rightarrow> string \<Rightarrow> bool \<Rightarrow> error + ttyIO"
  StateToOCIState :: "ContainerState \<Rightarrow> string"
  IsSandbox :: "string \<Rightarrow> bool"
  filepath_Join :: "string \<Rightarrow> string \<Rightarrow> string"
  path_Join :: "string \<Rightarrow> string \<Rightarrow> string"
  service_pid :: nat

section \<open>The orchestrator's state\<close>

record tty =
  height :: nat
  width :: nat
  t_stdin :: string
  t_stdout :: string
  t_stderr :: string
  t_terminal :: bool

record exec =
  e_id :: string
  cmds :: "Cmd option"
  e_pid :: nat
  e_status :: task_Status
  e_tty :: tty
  e_ttyio :: "ttyIO option"
  e_exitIOch :: chan

record container =
  c_id :: string
  cType :: string
  c_bundle :: string
  c_pid :: nat
  c_stdin :: string
  c_stdout :: string
  c_stderr :: string
  c_terminal :: bool
  c_status :: task_Status
  execs :: "string \<rightharpoonup> exec"
  c_exitIOch :: chan
  c_ttyio :: "ttyIO option"

record service =
  sandbox :: "VCSandbox option"
  containers :: "string \<rightharpoonup> container"
  processes :: "nat \<rightharpoonup> string"

section \<open>cleanupContainer (utils.go)\<close>

text \<open>
  The result is the returned error and the events in order. The kill sits inside the
  test on the state; the stop that follows is outside of it.
\<close>

definition cleanupContainer :: "env \<Rightarrow> string \<Rightarrow> string \<Rightarrow> string \<Rightarrow> error option \<times> event list" where
  "cleanupContainer e sid cid bundlePath =
     (let t0 = [Infof (''Cleanup container '' @ cid)];
          rootfs = filepath_Join e bundlePath ''rootfs'';
          t1 = t0 @ [FetchSandbox sid]
      in case vci_FetchSandbox e sid of
           Inl err \<Rightarrow> (Some err, t1)
         | Inr sb \<Rightarrow>
      (let t2 = t1 @ [Sandbox_StatusContainer cid]
       in case sb_StatusContainer sb cid of
            Inl err \<Rightarrow> (Some err, t2 @ [Warnf (''failed to get container '' @ cid @ '' status'') err])
          | Inr status \<Rightarrow>
      (let (kerr, t3) =
             (if StateToOCIState e (status_State status) \<noteq> oci_StateStopped
              then (vci_KillContainer e sid cid SIGKILL True, t2 @ [KillContainer sid cid SIGKILL True])
              else (None, t2))
       in case kerr of
            Some err \<Rightarrow> (Some err, t3 @ [Warnf (''failed to kill container '' @ cid) err])
          | None \<Rightarrow>
      (let t4 = t3 @ [StopContainer sid cid]
       in case vci_StopContainer e sid cid of
            Some err \<Rightarrow> (Some err, t4 @ [Warnf (''failed to stop container '' @ cid) err])
          | None \<Rightarrow>
      (let t5 = t4 @ [DeleteContainer sid cid] @
                  (case vci_DeleteContainer e sid cid of
                     Some err \<Rightarrow> [Warnf (''failed to remove container '' @ cid) err]
                   | None \<Rightarrow> []);
           t6 = t5 @ [UnmountAll rootfs 0] @
                  (case mount_UnmountAll e rootfs 0 of
                     Some err \<Rightarrow> [Warnf (''failed to cleanup container '' @ cid @ '' rootfs '' @ rootfs) err]
                   | None \<Rightarrow> []);
           t7 = t6 @ [Sandbox_GetAllContainers]
       in if length (sb_GetAllContainers sb) = 0 then
            (let t8 = t7 @ [StopSandbox sid]
             in case vci_StopSandbox e sid of
                  Some err \<Rightarrow> (Some err, t8 @ [Warnf (''failed to stop sandbox '' @ sid) err])
                | None \<Rightarrow>
            (let t9 = t8 @ [DeleteSandbox sid]
             in case vci_DeleteSandbox e sid of
                  Some err \<Rightarrow> (Some err, t9 @ [Warnf (''failed to delete sandbox '' @ sid) err])
                | None \<Rightarrow> (None, t9)))
          else (None, t7))))))"

section \<open>deleteContainer (delete.go)\<close>

text \<open>
  \<^verbatim>\<open>s.sandbox.ID()\<close> on a service without sandbox is a nil dereference. The two
  \<^verbatim>\<open>delete\<close> statements of Go remove a key from a map and do nothing for an absent key.
\<close>

definition deleteContainer :: "env \<Rightarrow> service \<Rightarrow> container \<Rightarrow> error option go \<times> service \<times> event list" where
  "deleteContainer e s c =
     (case sandbox s of
        None \<Rightarrow> (Panics, s, [])
      | Some sb \<Rightarrow>
      (let t1 = [StatusContainer (ID sb) (c_id c)]
       in case vci_StatusContainer e (ID sb) (c_id c) of
            Inl err \<Rightarrow> (Returns (Some err), s, t1)
          | Inr status \<Rightarrow>
      (let (serr, t2) =
             (if State_State (status_State status) \<noteq> StateStopped
              then (vci_StopContainer e (ID sb) (c_id c), t1 @ [StopContainer (ID sb) (c_id c)])
              else (None, t1))
       in case serr of
            Some err \<Rightarrow> (Returns (Some err), s, t2)
          | None \<Rightarrow>
      (let t3 = t2 @ [DeleteContainer (ID sb) (c_id c)]
       in case vci_DeleteContainer e (ID sb) (c_id c) of
            Some err \<Rightarrow> (Returns (Some err), s, t3)
          | None \<Rightarrow>
      (let rootfs = path_Join e (c_bundle c) ''rootfs'';
           t4 = t3 @ [UnmountAll rootfs 0] @
                  (case mount_UnmountAll e rootfs 0 of
                     Some err \<Rightarrow> [Warnf ''failed to cleanup rootfs mount'' err]
                   | None \<Rightarrow> []);
           s1 = s\<lparr>processes := (processes s)(c_pid c := None)\<rparr>;
           s2 = s1\<lparr>containers := (containers s1)(c_id c := None)\<rparr>
       in (Returns None, s2, t4))))))"

section \<open>startContainer and startExec\<close>

text \<open>
  \<open>startContainer\<close> writes to the container it is given (status, adapter, exit
  channel) and reads the service; both are returned. Closing the exit channel panics
  unless the channel is open.
\<close>

definition startContainer ::
    "env \<Rightarrow> service \<Rightarrow> container \<Rightarrow> error option go \<times> service \<times> container \<times> event list" where
  "startContainer e s c =
     (if cType c = [] then
        (Returns (Some (Error (''Bug, the container '' @ c_id c @ '' type is empty''))), s, c, [])
      else case sandbox s of
        None \<Rightarrow>
          (Returns (Some (Error (''Bug, the sandbox hasn't been created for this container '' @ c_id c))),
           s, c, [])
      | Some sb \<Rightarrow>
      (let (serr, t1) =
             (if IsSandbox e (cType c)
              then (vci_StartSandbox e (ID sb), [StartSandbox (ID sb)])
              else (vci_StartContainer e (ID sb) (c_id c), [StartContainer (ID sb) (c_id c)]))
       in case serr of
            Some err \<Rightarrow> (Returns (Some err), s, c, t1)
          | None \<Rightarrow>
      (let c1 = c\<lparr>c_status := StatusRunning\<rparr>;
           t2 = t1 @ [Sandbox_IOStream (c_id c) (c_id c)]
       in case sb_IOStream sb (c_id c) (c_id c) of
            Inl err \<Rightarrow> (Returns (Some err), s, c1, t2)
          | Inr streams \<Rightarrow>
            if c_stdin c \<noteq> [] \<or> c_stdout c \<noteq> [] \<or> c_stderr c \<noteq> [] then
              (let t3 = t2 @ [NewTtyIO (c_stdin c) (c_stdout c) (c_stderr c) (c_terminal c)]
               in case newTtyIO e (c_stdin c) (c_stdout c) (c_stderr c) (c_terminal c) of
                    Inl err \<Rightarrow> (Returns (Some err), s, c1, t3)
                  | Inr tty \<Rightarrow>
                      (Returns None, s, c1\<lparr>c_ttyio := Some tty\<rparr>,
                       t3 @ [Go_ioCopy tty streams, Go_wait (c_id c) []]))
            else
              (case c_exitIOch c1 of
                 ChanOpen \<Rightarrow>
                   (Returns None, s, c1\<lparr>c_exitIOch := ChanClosed\<rparr>,
                    t2 @ [Close_exitIOch, Go_wait (c_id c) []])
               | _ \<Rightarrow> (Panics, s, c1, t2 @ [Close_exitIOch])))))"

text \<open>Modelled from the spec: \<^verbatim>\<open>service.getContainer\<close> and \<^verbatim>\<open>container.getExec\<close>,
  which are not in the sources at hand: they resolve the named container and the named
  exec entry, and either lookup failing is a "not found" error.\<close>

definition getContainer :: "service \<Rightarrow> string \<Rightarrow> error + container" where
  "getContainer s containerID =
     (case containers s containerID of
        None \<Rightarrow> Inl (Error ''not found'')
      | Some c \<Rightarrow> Inr c)"

definition getExec :: "container \<Rightarrow> string \<Rightarrow> error + exec" where
  "getExec c execID =
     (case execs c execID of
        None \<Rightarrow> Inl (Error ''not found'')
      | Some x \<Rightarrow> Inr x)"

text \<open>
  The exec entry is reached through the container table, so what \<open>startExec\<close> writes
  to it is seen through the table: \<open>put_exec\<close> stores the entry back where the two
  lookups found it.
\<close>

definition put_exec :: "service \<Rightarrow> string \<Rightarrow> container \<Rightarrow> string \<Rightarrow> exec \<Rightarrow> service" where
  "put_exec s containerID c execID x =
     s\<lparr>containers := (containers s)(containerID \<mapsto> c\<lparr>execs := (execs c)(execID \<mapsto> x)\<rparr>)\<rparr>"

definition startExec ::
    "env \<Rightarrow> service \<Rightarrow> string \<Rightarrow> string \<Rightarrow> (error + exec) go \<times> service \<times> event list" where
  "startExec e s containerID execID =
     (case getContainer s containerID of
        Inl err \<Rightarrow> (Returns (Inl err), s, [])
      | Inr c \<Rightarrow>
      (case getExec c execID of
        Inl err \<Rightarrow> (Returns (Inl err), s, [])
      | Inr x0 \<Rightarrow>
      (case sandbox s of
        None \<Rightarrow> (Panics, s, [])
      | Some sb \<Rightarrow>
      (case cmds x0 of
        None \<Rightarrow> (Panics, s, [])
      | Some cmd \<Rightarrow>
      (let t1 = [Sandbox_EnterContainer containerID cmd]
       in case sb_EnterContainer sb containerID cmd of
            Inl err \<Rightarrow>
              (Returns (Inl (Error (''cannot enter container '' @ containerID @ '', with err '' @ msg err))),
               s, t1)
          | Inr proc \<Rightarrow>
      (let x1 = x0\<lparr>e_id := Token proc\<rparr>;
           pid = service_pid e;
           x2 = x1\<lparr>e_pid := pid\<rparr>;
           s1 = s\<lparr>processes := (processes s)(pid \<mapsto> execID)\<rparr>;
           x3 = x2\<lparr>e_status := StatusRunning\<rparr>;
           (werr, t2) =
             (if height (e_tty x3) \<noteq> 0 \<and> width (e_tty x3) \<noteq> 0
              then (sb_WinsizeProcess sb (c_id c) (e_id x3) (height (e_tty x3)) (width (e_tty x3)),
                    t1 @ [Sandbox_WinsizeProcess (c_id c) (e_id x3) (height (e_tty x3)) (width (e_tty x3))])
              else (None, t1))
       in case werr of
            Some err \<Rightarrow> (Returns (Inl err), put_exec s1 containerID c execID x3, t2)
          | None \<Rightarrow>
      (let t3 = t2 @ [Sandbox_IOStream (c_id c) (e_id x3)]
       in case sb_IOStream sb (c_id c) (e_id x3) of
            Inl err \<Rightarrow> (Returns (Inl err), put_exec s1 containerID c execID x3, t3)
          | Inr streams \<Rightarrow>
      (let t4 = t3 @ [NewTtyIO (t_stdin (e_tty x3)) (t_stdout (e_tty x3)) (t_stderr (e_tty x3))
                        (t_terminal (e_tty x3))]
       in case newTtyIO e (t_stdin (e_tty x3)) (t_stdout (e_tty x3)) (t_stderr (e_tty x3))
                 (t_terminal (e_tty x3)) of
            Inl err \<Rightarrow> (Returns (Inl err), put_exec s1 containerID c execID x3, t4)
          | Inr ttyh \<Rightarrow>
              (let x4 = x3\<lparr>e_ttyio := Some ttyh\<rparr>
               in (Returns (Inr x4), put_exec s1 containerID c execID x4,
                   t4 @ [Go_ioCopy ttyh streams, Go_wait (c_id c) execID]))))))))))"

section \<open>The proxy type registry\<close>

text \<open>Modelled from the spec: the type \<^verbatim>\<open>ProxyType\<close>, of which the sources at hand
  hold only the tests: a closed enumeration of four values, and the zero (unset) value
  of a variable that was never set.\<close>

datatype ProxyType =
  UnsetProxyType | NoProxyType | KataProxyType | KataBuiltInProxyType | NoopProxyType

text \<open>Modelled from the spec: \<^verbatim>\<open>(*ProxyType).Set\<close>, the spec's \<open>parse\<close>: it maps
  exactly the four tokens to their values; any other input fails with an "unknown proxy
  type" error and leaves the target as the caller had it. The result is the error and
  the target after the call.\<close>

definition Set_ProxyType :: "ProxyType \<Rightarrow> string \<Rightarrow> error option \<times> ProxyType" where
  "Set_ProxyType pType v =
     (if v = ''noProxy'' then (None, NoProxyType)
      else if v = ''kataProxy'' then (None, KataProxyType)
      else if v = ''kataBuiltInProxy'' then (None, KataBuiltInProxyType)
      else if v = ''noopProxy'' then (None, NoopProxyType)
      else (Some (Error (''unknown proxy type '' @ v)), pType))"

text \<open>Modelled from the spec: \<^verbatim>\<open>(*ProxyType).String\<close>, the spec's \<open>format\<close>: the
  inverse mapping; the zero value formats to the empty string.\<close>

fun String_ProxyType :: "ProxyType \<Rightarrow> string" where
  "String_ProxyType NoProxyType = ''noProxy''"
| "String_ProxyType KataProxyType = ''kataProxy''"
| "String_ProxyType KataBuiltInProxyType = ''kataBuiltInProxy''"
| "String_ProxyType NoopProxyType = ''noopProxy''"
| "String_ProxyType UnsetProxyType = []"

datatype proxy = noProxy | kataProxy | kataBuiltInProxy | noopProxy

text \<open>Modelled from the spec: \<^verbatim>\<open>newProxy\<close>, the spec's \<open>construct\<close>: the strategy
  object of each of the four types, and for the zero value a usable default variant
  with no error. The spec does not name the default, so it is a parameter.\<close>

fun newProxy :: "proxy \<Rightarrow> ProxyType \<Rightarrow> error + proxy" where
  "newProxy dflt NoProxyType = Inr noProxy"
| "newProxy dflt KataProxyType = Inr kataProxy"
| "newProxy dflt KataBuiltInProxyType = Inr kataBuiltInProxy"
| "newProxy dflt NoopProxyType = Inr noopProxy"
| "newProxy dflt UnsetProxyType = Inr dflt"

text \<open>The four recognised tokens and the four values they name.\<close>

definition proxy_tokens :: "string list" where
  "proxy_tokens = [''noProxy'', ''kataProxy'', ''kataBuiltInProxy'', ''noopProxy'']"

definition proxy_types :: "ProxyType list" where
  "proxy_types = [NoProxyType, KataProxyType, KataBuiltInProxyType, NoopProxyType]"

section \<open>Order of events\<close>

text \<open>\<open>happens_before a b tr\<close>: the event \<open>a\<close> occurs in the trace and \<open>b\<close> occurs
  after the first occurrence of \<open>a\<close>.\<close>

definition happens_before :: "event \<Rightarrow> event \<Rightarrow> event list \<Rightarrow> bool" where
  "happens_before a b tr \<longleftrightarrow> a \<in> set tr \<and> b \<in> set (tl (dropWhile (\<lambda>x. x \<noteq> a) tr))"

section \<open>Concrete collaborators for the examples\<close>

text \<open>
  A sandbox \<open>sb1\<close> with no container left whose API calls all succeed, hosting a
  container \<open>c1\<close> with one exec entry \<open>e1\<close> that asked for a 24 by 80 terminal.
  The parameter is the state the status queries report. The variants make one call fail.
\<close>

definition test_status :: "StateString \<Rightarrow> ContainerStatus" where
  "test_status st = \<lparr>status_State = \<lparr>State_State = st\<rparr>\<rparr>"

definition test_sandbox :: "StateString \<Rightarrow> VCSandbox" where
  "test_sandbox st =
     \<lparr>ID = ''sb1'',
      sb_StatusContainer = (\<lambda>cid. Inr (test_status st)),
      sb_GetAllContainers = [],
      sb_IOStream = (\<lambda>cid pid. Inr (0, 1, 2)),
      sb_EnterContainer = (\<lambda>cid cmd. Inr \<lparr>Token = ''tok1''\<rparr>),
      sb_WinsizeProcess = (\<lambda>cid pid h w. None)\<rparr>"

definition test_sandbox_enter_fails :: VCSandbox where
  "test_sandbox_enter_fails =
     (test_sandbox ''running'')\<lparr>sb_EnterContainer := (\<lambda>cid cmd. Inl (Error ''enter failed''))\<rparr>"

definition test_sandbox_winsize_fails :: VCSandbox where
  "test_sandbox_winsize_fails =
     (test_sandbox ''running'')\<lparr>sb_WinsizeProcess := (\<lambda>cid pid h w. Some (Error ''resize failed''))\<rparr>"

definition test_env :: "StateString \<Rightarrow> env" where
  "test_env st =
     \<lparr>vci_FetchSandbox = (\<lambda>sid. Inr (test_sandbox st)),
      vci_StatusContainer = (\<lambda>sid cid. Inr (test_status st)),
      vci_KillContainer = (\<lambda>sid cid sig all. None),
      vci_StopContainer = (\<lambda>sid cid. None),
      vci_DeleteContainer = (\<lambda>sid cid. None),
      vci_StopSandbox = (\<lambda>sid. None),
      vci_DeleteSandbox = (\<lambda>sid. None),
      vci_StartSandbox = (\<lambda>sid. None),
      vci_StartContainer = (\<lambda>sid cid. None),
      mount_UnmountAll = (\<lambda>p flags. None),
      newTtyIO = (\<lambda>i out err t. Inr 5),
      StateToOCIState = (\<lambda>s. if State_State s = ''ready'' then ''created'' else State_State s),
      IsSandbox = (\<lambda>t. t = ''pod_sandbox''),
      filepath_Join = (\<lambda>a b. a @ ''/'' @ b),
      path_Join = (\<lambda>a b. a @ ''/'' @ b),
      service_pid = 7\<rparr>"

definition test_env_status_fails :: env where
  "test_env_status_fails =
     (test_env ''running'')\<lparr>vci_StatusContainer := (\<lambda>sid cid. Inl (Error ''status failed''))\<rparr>"

definition test_env_stop_fails :: env where
  "test_env_stop_fails =
     (test_env ''running'')\<lparr>vci_StopContainer := (\<lambda>sid cid. Some (Error ''stop failed''))\<rparr>"

definition test_env_delete_fails :: "StateString \<Rightarrow> env" where
  "test_env_delete_fails st =
     (test_env st)\<lparr>vci_DeleteContainer := (\<lambda>sid cid. Some (Error ''delete failed''))\<rparr>"

definition test_env_unmount_fails :: "StateString \<Rightarrow> env" where
  "test_env_unmount_fails st =
     (test_env st)\<lparr>mount_UnmountAll := (\<lambda>p flags. Some (Error ''unmount failed''))\<rparr>"

definition test_env_sandbox_stop_fails :: env where
  "test_env_sandbox_stop_fails =
     (test_env_delete_fails ''running'')\<lparr>vci_StopSandbox := (\<lambda>sid. Some (Error ''sandbox stop failed''))\<rparr>"

definition test_env_sandbox_delete_fails :: env where
  "test_env_sandbox_delete_fails =
     (test_env_unmount_fails ''running'')\<lparr>vci_DeleteSandbox := (\<lambda>sid. Some (Error ''sandbox delete failed''))\<rparr>"

definition test_tty :: tty where
  "test_tty = \<lparr>height = 24, width = 80, t_stdin = ''/in'', t_stdout = ''/out'', t_stderr = [],
               t_terminal = True\<rparr>"

definition test_exec :: exec where
  "test_exec = \<lparr>e_id = [], cmds = Some [''sh''], e_pid = 0, e_status = StatusCreated,
                e_tty = test_tty, e_ttyio = None, e_exitIOch = ChanOpen\<rparr>"

definition test_container :: container where
  "test_container =
     \<lparr>c_id = ''c1'', cType = ''pod_container'', c_bundle = ''/run/b1'', c_pid = 1,
      c_stdin = [], c_stdout = [], c_stderr = [], c_terminal = False,
      c_status = StatusCreated, execs = [''e1'' \<mapsto> test_exec],
      c_exitIOch = ChanOpen, c_ttyio = None\<rparr>"

definition test_service :: "VCSandbox \<Rightarrow> service" where
  "test_service sb =
     \<lparr>sandbox = Some sb, containers = [''c1'' \<mapsto> test_container], processes = [1 \<mapsto> ''c1'']\<rparr>"

definition test_service_no_sandbox :: service where
  "test_service_no_sandbox =
     \<lparr>sandbox = None, containers = [''c1'' \<mapsto> test_container], processes = [1 \<mapsto> ''c1'']\<rparr>"

section \<open>Properties of Split\<close>

lemma Split_not_Nil: "Split s sep \<noteq> []"
  by (induction s) auto

lemma Split_no_sep: "sep \<notin> set s \<Longrightarrow> Split s sep = [s]"
  by (induction s) auto

lemma Split_append_sep: "Split (a @ sep # b) sep = Split a sep @ Split b sep"
proof (induction a)
  case Nil
  show ?case by simp
next
  case (Cons x a)
  have ne: "Split a sep \<noteq> []" by (rule Split_not_Nil)
  show ?case
  proof (cases "x = sep")
    case True
    with Cons show ?thesis by simp
  next
    case False
    with Cons ne show ?thesis by simp
  qed
qed

lemma Split_parts_no_sep: "w \<in> set (Split s sep) \<Longrightarrow> sep \<notin> set w"
proof (induction s arbitrary: w)
  case Nil
  then show ?case by simp
next
  case (Cons c s)
  have ne: "Split s sep \<noteq> []" by (rule Split_not_Nil)
  show ?case
  proof (cases "c = sep")
    case True
    with Cons show ?thesis by auto
  next
    case False
    from Cons.prems False
    have "w = c # hd (Split s sep) \<or> w \<in> set (tl (Split s sep))" by simp
    then show ?thesis
    proof
      assume w: "w = c # hd (Split s sep)"
      from ne have "hd (Split s sep) \<in> set (Split s sep)" by simp
      with Cons.IH have "sep \<notin> set (hd (Split s sep))" by blast
      with w False show ?thesis by auto
    next
      assume "w \<in> set (tl (Split s sep))"
      with ne have "w \<in> set (Split s sep)" by (meson list.set_sel(2))
      with Cons.IH show ?thesis by blast
    qed
  qed
qed

lemma Join_Split: "Join (Split s sep) sep = s"
proof (induction s)
  case Nil
  show ?case by simp
next
  case (Cons c s)
  obtain w ws where sp: "Split s sep = w # ws"
    using Split_not_Nil [of s sep] by (cases "Split s sep") auto
  show ?case
  proof (cases "c = sep")
    case True
    with Cons sp show ?thesis by simp
  next
    case False
    with Cons sp show ?thesis by (cases ws) auto
  qed
qed

lemma Join_snoc2:
  "Join (us @ [a, b]) sep = (if us = [] then a @ sep # b else Join us sep @ sep # a @ sep # b)"
proof (induction us sep rule: Join.induct)
  case (1 sep)
  show ?case by simp
next
  case (2 w sep)
  show ?case by simp
next
  case (3 w v ws sep)
  then show ?case by simp
qed

lemma k8sEmptyDir_no_slash: "CHR ''/'' \<notin> set k8sEmptyDir"
  by (simp add: k8sEmptyDir_def)

lemma IsEphemeralStorage_iff_Split:
  "IsEphemeralStorage path \<longleftrightarrow>
     (2 \<le> length (Split path (CHR ''/'')) \<and>
      Split path (CHR ''/'') ! (length (Split path (CHR ''/'')) - 2) = k8sEmptyDir)"
  by (auto simp: IsEphemeralStorage_def Let_def)

lemma IsEphemeralStorage_shape_intro:
  assumes "CHR ''/'' \<notin> set last_part"
    and "path = k8sEmptyDir @ ''/'' @ last_part \<or> path = pre @ ''/'' @ k8sEmptyDir @ ''/'' @ last_part"
  shows "IsEphemeralStorage path"
proof -
  have tail: "Split (k8sEmptyDir @ ''/'' @ last_part) (CHR ''/'') = [k8sEmptyDir, last_part]"
    using Split_append_sep [of k8sEmptyDir "CHR ''/''" last_part]
      Split_no_sep [OF k8sEmptyDir_no_slash] Split_no_sep [OF assms(1)] by simp
  from assms(2) show ?thesis
  proof
    assume "path = k8sEmptyDir @ ''/'' @ last_part"
    with tail show ?thesis by (simp add: IsEphemeralStorage_iff_Split)
  next
    assume p: "path = pre @ ''/'' @ k8sEmptyDir @ ''/'' @ last_part"
    have "Split path (CHR ''/'') = Split pre (CHR ''/'') @ [k8sEmptyDir, last_part]"
      using Split_append_sep [of pre "CHR ''/''" "k8sEmptyDir @ ''/'' @ last_part"] tail p
      by simp
    then show ?thesis by (simp add: IsEphemeralStorage_iff_Split nth_append)
  qed
qed

lemma IsEphemeralStorage_shape_elim:
  assumes "IsEphemeralStorage path"
  shows "\<exists>pre last_part. CHR ''/'' \<notin> set last_part \<and>
           (path = k8sEmptyDir @ ''/'' @ last_part \<or>
            path = pre @ ''/'' @ k8sEmptyDir @ ''/'' @ last_part)"
proof -
  let ?ws = "Split path (CHR ''/'')"
  from assms have len: "2 \<le> length ?ws" and nth: "?ws ! (length ?ws - 2) = k8sEmptyDir"
    by (simp_all add: IsEphemeralStorage_iff_Split)
  define us where "us = take (length ?ws - 2) ?ws"
  define l where "l = last ?ws"
  have "?ws = us @ drop (length ?ws - 2) ?ws" by (simp add: us_def)
  moreover have "drop (length ?ws - 2) ?ws = [?ws ! (length ?ws - 2), ?ws ! (length ?ws - 1)]"
  proof -
    from len obtain n where n: "length ?ws = Suc (Suc n)"
      by (metis Suc_le_D numeral_2_eq_2 Suc_le_mono)
    have "drop n ?ws = ?ws ! n # drop (Suc n) ?ws"
      using n by (simp add: Cons_nth_drop_Suc)
    moreover have "drop (Suc n) ?ws = ?ws ! Suc n # drop (Suc (Suc n)) ?ws"
      using n Cons_nth_drop_Suc [of "Suc n" ?ws] by simp
    moreover have "drop (Suc (Suc n)) ?ws = []"
      using n by simp
    ultimately show ?thesis using n by simp
  qed
  moreover have "?ws ! (length ?ws - 1) = l"
    using len by (simp add: l_def last_conv_nth Split_not_Nil)
  ultimately have ws: "?ws = us @ [k8sEmptyDir, l]" using nth by simp
  have "l \<in> set ?ws" by (simp add: l_def Split_not_Nil)
  then have nosl: "CHR ''/'' \<notin> set l" by (rule Split_parts_no_sep)
  have "path = Join ?ws (CHR ''/'')" by (simp add: Join_Split)
  also have "\<dots> = Join (us @ [k8sEmptyDir, l]) (CHR ''/'')" using ws by simp
  finally have "path = (if us = [] then k8sEmptyDir @ ''/'' @ l
                        else Join us (CHR ''/'') @ ''/'' @ k8sEmptyDir @ ''/'' @ l)"
    by (simp add: Join_snoc2)
  with nosl show ?thesis by (cases "us = []") auto
qed

section \<open>Runs of the examples\<close>

lemmas fixture_defs = test_status_def test_sandbox_def test_sandbox_enter_fails_def
  test_sandbox_winsize_fails_def test_env_def test_env_status_fails_def test_env_stop_fails_def
  test_env_delete_fails_def test_env_unmount_fails_def test_env_sandbox_stop_fails_def
  test_env_sandbox_delete_fails_def test_tty_def test_exec_def test_container_def
  test_service_def test_service_no_sandbox_def

lemma run_cleanup_stopped:
  "cleanupContainer (test_env ''stopped'') ''sb1'' ''c1'' ''/run/b1'' =
     (None,
      [Infof ''Cleanup container c1'', FetchSandbox ''sb1'',
       Sandbox_StatusContainer ''c1'', StopContainer ''sb1'' ''c1'',
       DeleteContainer ''sb1'' ''c1'', UnmountAll ''/run/b1/rootfs'' 0,
       Sandbox_GetAllContainers, StopSandbox ''sb1'', DeleteSandbox ''sb1''])"
  by (simp add: cleanupContainer_def Let_def fixture_defs oci_StateStopped_def SIGKILL_def)

lemma run_cleanup_running:
  "cleanupContainer (test_env ''running'') ''sb1'' ''c1'' ''/run/b1'' =
     (None,
      [Infof ''Cleanup container c1'', FetchSandbox ''sb1'',
       Sandbox_StatusContainer ''c1'', KillContainer ''sb1'' ''c1'' 9 True,
       StopContainer ''sb1'' ''c1'', DeleteContainer ''sb1'' ''c1'',
       UnmountAll ''/run/b1/rootfs'' 0, Sandbox_GetAllContainers,
       StopSandbox ''sb1'', DeleteSandbox ''sb1''])"
  by (simp add: cleanupContainer_def Let_def fixture_defs oci_StateStopped_def SIGKILL_def)



lemma run_delete_status_fails:
  "deleteContainer test_env_status_fails (test_service (test_sandbox ''running'')) test_container =
     (Returns (Some (Error ''status failed'')), test_service (test_sandbox ''running''),
      [StatusContainer ''sb1'' ''c1''])"
  by (simp add: deleteContainer_def Let_def fixture_defs StateStopped_def)

lemma run_delete_stop_fails:
  "deleteContainer test_env_stop_fails (test_service (test_sandbox ''running'')) test_container =
     (Returns (Some (Error ''stop failed'')), test_service (test_sandbox ''running''),
      [StatusContainer ''sb1'' ''c1'', StopContainer ''sb1'' ''c1''])"
  by (simp add: deleteContainer_def Let_def fixture_defs StateStopped_def)

lemma run_delete_running_delete_fails:
  "deleteContainer (test_env_delete_fails ''running'') (test_service (test_sandbox ''running'')) test_container =
     (Returns (Some (Error ''delete failed'')), test_service (test_sandbox ''running''),
      [StatusContainer ''sb1'' ''c1'', StopContainer ''sb1'' ''c1'', DeleteContainer ''sb1'' ''c1''])"
  by (simp add: deleteContainer_def Let_def fixture_defs StateStopped_def)

lemma run_delete_stopped_delete_fails:
  "deleteContainer (test_env_delete_fails ''stopped'') (test_service (test_sandbox ''stopped'')) test_container =
     (Returns (Some (Error ''delete failed'')), test_service (test_sandbox ''stopped''),
      [StatusContainer ''sb1'' ''c1'', DeleteContainer ''sb1'' ''c1''])"
  by (simp add: deleteContainer_def Let_def fixture_defs StateStopped_def)

lemma run_delete_stopped_unmount_fails:
  "deleteContainer (test_env_unmount_fails ''stopped'') (test_service (test_sandbox ''stopped'')) test_container =
     (Returns None,
      (test_service (test_sandbox ''stopped''))
        \<lparr>containers := Map.empty, processes := Map.empty\<rparr>,
      [StatusContainer ''sb1'' ''c1'', DeleteContainer ''sb1'' ''c1'',
       UnmountAll ''/run/b1/rootfs'' 0,
       Warnf ''failed to cleanup rootfs mount'' (Error ''unmount failed'')])"
  by (simp add: deleteContainer_def Let_def fixture_defs StateStopped_def)

lemma run_startContainer_no_io:
  "startContainer (test_env ''running'') (test_service (test_sandbox ''running'')) test_container =
     (Returns None, test_service (test_sandbox ''running''),
      test_container\<lparr>c_status := StatusRunning, c_exitIOch := ChanClosed\<rparr>,
      [StartContainer ''sb1'' ''c1'', Sandbox_IOStream ''c1'' ''c1'',
       Close_exitIOch, Go_wait ''c1'' []])"
  by (simp add: startContainer_def Let_def fixture_defs)

lemma run_startExec_enter_fails:
  "startExec (test_env ''running'') (test_service test_sandbox_enter_fails) ''c1'' ''e1'' =
     (Returns (Inl (Error ''cannot enter container c1, with err enter failed'')),
      test_service test_sandbox_enter_fails,
      [Sandbox_EnterContainer ''c1'' [''sh'']])"
  by (simp add: startExec_def getContainer_def getExec_def Let_def fixture_defs)

lemma run_startExec_winsize_fails:
  "startExec (test_env ''running'') (test_service test_sandbox_winsize_fails) ''c1'' ''e1'' =
     (Returns (Inl (Error ''resize failed'')),
      put_exec ((test_service test_sandbox_winsize_fails)\<lparr>processes := [1 \<mapsto> ''c1'', 7 \<mapsto> ''e1'']\<rparr>)
        ''c1'' test_container ''e1''
        (test_exec\<lparr>e_id := ''tok1'', e_pid := 7, e_status := StatusRunning\<rparr>),
      [Sandbox_EnterContainer ''c1'' [''sh''],
       Sandbox_WinsizeProcess ''c1'' ''tok1'' 24 80])"
  by (simp add: startExec_def getContainer_def getExec_def Let_def fixture_defs)

lemma run_startExec_ok:
  "startExec (test_env ''running'') (test_service (test_sandbox ''running'')) ''c1'' ''e1'' =
     (Returns (Inr (test_exec\<lparr>e_id := ''tok1'', e_pid := 7, e_status := StatusRunning, e_ttyio := Some 5\<rparr>)),
      put_exec ((test_service (test_sandbox ''running''))\<lparr>processes := [1 \<mapsto> ''c1'', 7 \<mapsto> ''e1'']\<rparr>)
        ''c1'' test_container ''e1''
        (test_exec\<lparr>e_id := ''tok1'', e_pid := 7, e_status := StatusRunning, e_ttyio := Some 5\<rparr>),
      [Sandbox_EnterContainer ''c1'' [''sh''],
       Sandbox_WinsizeProcess ''c1'' ''tok1'' 24 80,
       Sandbox_IOStream ''c1'' ''tok1'', NewTtyIO ''/in'' ''/out'' [] True,
       Go_ioCopy 5 (0, 1, 2), Go_wait ''c1'' ''e1''])"
  by (simp add: startExec_def getContainer_def getExec_def Let_def fixture_defs)

section \<open>Facts about cleanupContainer: the best-effort steps and reaching the delete\<close>


lemma cleanupContainer_reaches_delete:
  assumes "cleanupContainer e sid cid bundlePath = (r, tr)"
    and "vci_FetchSandbox e sid = Inr sb"
    and "sb_StatusContainer sb cid = Inr status"
  shows "DeleteContainer sid cid \<in> set tr \<longleftrightarrow>
           (StateToOCIState e (status_State status) \<noteq> oci_StateStopped
              \<longrightarrow> vci_KillContainer e sid cid SIGKILL True = None)
           \<and> vci_StopContainer e sid cid = None"
  using assms unfolding cleanupContainer_def Let_def
  by (auto split: if_splits option.splits sum.splits prod.splits)

section \<open>Claims about cleanupContainer\<close>



text \<open>
  C2, as stated, fails: for a container whose state is already stopped,
  \<open>cleanupContainer\<close> skips the kill but still invokes the stop before the delete.
\<close>

theorem C2_cleanupContainer_stop_on_stopped_counterexample:
  "sb_StatusContainer (test_sandbox ''stopped'') ''c1'' = Inr (test_status ''stopped'')
   \<and> StateToOCIState (test_env ''stopped'') (status_State (test_status ''stopped'')) = oci_StateStopped
   \<and> StopContainer ''sb1'' ''c1''
        \<in> set (snd (cleanupContainer (test_env ''stopped'') ''sb1'' ''c1'' ''/run/b1''))
   \<and> happens_before (StopContainer ''sb1'' ''c1'') (DeleteContainer ''sb1'' ''c1'')
        (snd (cleanupContainer (test_env ''stopped'') ''sb1'' ''c1'' ''/run/b1''))"
  by (simp add: run_cleanup_stopped happens_before_def)
     (simp add: fixture_defs oci_StateStopped_def)

text \<open>
  C2, amended. In a run of \<open>cleanupContainer\<close> whose sandbox fetch and status query
  succeed, the kill is issued exactly when the queried state is not already stopped.
  The stop is issued in both cases, unless the kill failed, and after the kill when
  there is one. For a container whose state is already stopped no kill at all is
  issued, the stop is invoked, and the delete follows exactly when that stop succeeds.
\<close>

theorem C2_cleanupContainer_kill_guarded_stop_always:
  assumes "cleanupContainer e sid cid bundlePath = (r, tr)"
    and "vci_FetchSandbox e sid = Inr sb"
    and "sb_StatusContainer sb cid = Inr status"
  shows "(KillContainer sid cid SIGKILL True \<in> set tr
            \<longleftrightarrow> StateToOCIState e (status_State status) \<noteq> oci_StateStopped)
       \<and> (StopContainer sid cid \<in> set tr
            \<longleftrightarrow> StateToOCIState e (status_State status) = oci_StateStopped
                \<or> vci_KillContainer e sid cid SIGKILL True = None)
       \<and> (KillContainer sid cid SIGKILL True \<in> set tr \<and> StopContainer sid cid \<in> set tr
            \<longrightarrow> happens_before (KillContainer sid cid SIGKILL True) (StopContainer sid cid) tr)
       \<and> (StateToOCIState e (status_State status) = oci_StateStopped \<longrightarrow>
            (\<forall>a b sig all. KillContainer a b sig all \<notin> set tr)
            \<and> StopContainer sid cid \<in> set tr
            \<and> (DeleteContainer sid cid \<in> set tr \<longleftrightarrow> vci_StopContainer e sid cid = None)
            \<and> (vci_StopContainer e sid cid = None
                 \<longrightarrow> happens_before (StopContainer sid cid) (DeleteContainer sid cid) tr))"
  using assms unfolding cleanupContainer_def Let_def happens_before_def
  by (auto split: if_splits option.splits sum.splits prod.splits)

text \<open>C2 amended, on a stopped and on a running container.\<close>

theorem C2_cleanupContainer_kill_guarded_stop_always_witness:
  "StateToOCIState (test_env ''stopped'') (status_State (test_status ''stopped'')) = oci_StateStopped
   \<and> StateToOCIState (test_env ''running'') (status_State (test_status ''running'')) \<noteq> oci_StateStopped
   \<and> KillContainer ''sb1'' ''c1'' SIGKILL True
        \<notin> set (snd (cleanupContainer (test_env ''stopped'') ''sb1'' ''c1'' ''/run/b1''))
   \<and> StopContainer ''sb1'' ''c1''
        \<in> set (snd (cleanupContainer (test_env ''stopped'') ''sb1'' ''c1'' ''/run/b1''))
   \<and> DeleteContainer ''sb1'' ''c1''
        \<in> set (snd (cleanupContainer (test_env ''stopped'') ''sb1'' ''c1'' ''/run/b1''))
   \<and> happens_before (KillContainer ''sb1'' ''c1'' SIGKILL True) (StopContainer ''sb1'' ''c1'')
        (snd (cleanupContainer (test_env ''running'') ''sb1'' ''c1'' ''/run/b1''))"
proof -
  have st: "StateToOCIState (test_env ''stopped'') (status_State (test_status ''stopped'')) = oci_StateStopped"
    and rn: "StateToOCIState (test_env ''running'') (status_State (test_status ''running'')) \<noteq> oci_StateStopped"
    and f1: "vci_FetchSandbox (test_env ''stopped'') ''sb1'' = Inr (test_sandbox ''stopped'')"
    and f2: "vci_FetchSandbox (test_env ''running'') ''sb1'' = Inr (test_sandbox ''running'')"
    and q1: "sb_StatusContainer (test_sandbox ''stopped'') ''c1'' = Inr (test_status ''stopped'')"
    and q2: "sb_StatusContainer (test_sandbox ''running'') ''c1'' = Inr (test_status ''running'')"
    and k: "vci_StopContainer (test_env ''stopped'') ''sb1'' ''c1'' = None"
    by (simp_all add: fixture_defs oci_StateStopped_def)
  note a = C2_cleanupContainer_kill_guarded_stop_always [OF run_cleanup_stopped f1 q1]
  note b = C2_cleanupContainer_kill_guarded_stop_always [OF run_cleanup_running f2 q2]
  show ?thesis
    using a b st rn k by (simp add: run_cleanup_stopped run_cleanup_running)
qed

section \<open>Claims about deleteContainer\<close>

text \<open>
  C3, as stated, fails: for a container already stopped whose delete call fails,
  \<open>deleteContainer\<close> returns that error, attempts no unmount and leaves both
  tables as they were.
\<close>

theorem C3_deleteContainer_stopped_delete_fails_counterexample:
  "vci_StatusContainer (test_env_delete_fails ''stopped'') ''sb1'' ''c1'' = Inr (test_status ''stopped'')
   \<and> State_State (status_State (test_status ''stopped'')) = StateStopped
   \<and> deleteContainer (test_env_delete_fails ''stopped'') (test_service (test_sandbox ''stopped'')) test_container =
       (Returns (Some (Error ''delete failed'')), test_service (test_sandbox ''stopped''),
        [StatusContainer ''sb1'' ''c1'', DeleteContainer ''sb1'' ''c1''])
   \<and> containers (test_service (test_sandbox ''stopped'')) ''c1'' = Some test_container
   \<and> processes (test_service (test_sandbox ''stopped'')) 1 = Some ''c1''"
  by (simp add: run_delete_stopped_delete_fails)
     (simp add: fixture_defs StateStopped_def)

text \<open>
  C3, amended. For a container whose queried status is already stopped,
  \<open>deleteContainer\<close> issues no stop and still issues the delete through the sandbox
  control API. When that delete succeeds, it then attempts the rootfs unmount, removes
  the container from the id-indexed container table and from the pid-indexed process
  table, and returns nil even when the unmount fails; the unmount failure is logged.
\<close>

theorem C3_deleteContainer_already_stopped:
  assumes "deleteContainer e s c = (r, s', tr)"
    and "sandbox s = Some sb"
    and "vci_StatusContainer e (ID sb) (c_id c) = Inr status"
    and "State_State (status_State status) = StateStopped"
  shows "(\<forall>a b. StopContainer a b \<notin> set tr)
       \<and> DeleteContainer (ID sb) (c_id c) \<in> set tr
       \<and> (vci_DeleteContainer e (ID sb) (c_id c) = None \<longrightarrow>
            happens_before (DeleteContainer (ID sb) (c_id c))
              (UnmountAll (path_Join e (c_bundle c) ''rootfs'') 0) tr
            \<and> containers s' = (containers s)(c_id c := None)
            \<and> processes s' = (processes s)(c_pid c := None)
            \<and> sandbox s' = sandbox s
            \<and> r = Returns None
            \<and> (\<forall>err. mount_UnmountAll e (path_Join e (c_bundle c) ''rootfs'') 0 = Some err
                  \<longrightarrow> Warnf ''failed to cleanup rootfs mount'' err \<in> set tr))"
  using assms unfolding deleteContainer_def Let_def happens_before_def
  by (auto split: if_splits option.splits sum.splits prod.splits)

text \<open>C3 amended, on a stopped container whose unmount fails.\<close>

theorem C3_deleteContainer_already_stopped_witness:
  "sandbox (test_service (test_sandbox ''stopped'')) = Some (test_sandbox ''stopped'')
   \<and> vci_StatusContainer (test_env_unmount_fails ''stopped'') ''sb1'' ''c1'' = Inr (test_status ''stopped'')
   \<and> State_State (status_State (test_status ''stopped'')) = StateStopped
   \<and> vci_DeleteContainer (test_env_unmount_fails ''stopped'') ''sb1'' ''c1'' = None
   \<and> mount_UnmountAll (test_env_unmount_fails ''stopped'') ''/run/b1/rootfs'' 0 = Some (Error ''unmount failed'')
   \<and> fst (deleteContainer (test_env_unmount_fails ''stopped'') (test_service (test_sandbox ''stopped''))
        test_container) = Returns None
   \<and> containers (fst (snd (deleteContainer (test_env_unmount_fails ''stopped'')
        (test_service (test_sandbox ''stopped'')) test_container))) ''c1'' = None
   \<and> processes (fst (snd (deleteContainer (test_env_unmount_fails ''stopped'')
        (test_service (test_sandbox ''stopped'')) test_container))) 1 = None
   \<and> StopContainer ''sb1'' ''c1'' \<notin> set (snd (snd (deleteContainer (test_env_unmount_fails ''stopped'')
        (test_service (test_sandbox ''stopped'')) test_container)))"
proof -
  have sb: "sandbox (test_service (test_sandbox ''stopped'')) = Some (test_sandbox ''stopped'')"
    and q: "vci_StatusContainer (test_env_unmount_fails ''stopped'') (ID (test_sandbox ''stopped''))
              (c_id test_container) = Inr (test_status ''stopped'')"
    and st: "State_State (status_State (test_status ''stopped'')) = StateStopped"
    and d: "vci_DeleteContainer (test_env_unmount_fails ''stopped'') ''sb1'' ''c1'' = None"
    and u: "mount_UnmountAll (test_env_unmount_fails ''stopped'') ''/run/b1/rootfs'' 0 = Some (Error ''unmount failed'')"
    and i: "ID (test_sandbox ''stopped'') = ''sb1''" "c_id test_container = ''c1''"
       "c_pid test_container = 1"
    by (simp_all add: fixture_defs StateStopped_def)
  note a = C3_deleteContainer_already_stopped [OF run_delete_stopped_unmount_fails sb q st]
  show ?thesis
    using a sb q st d u i by (simp add: run_delete_stopped_unmount_fails)
qed

text \<open>
  C4. Whenever the status query, the stop or the delete call of a run of
  \<open>deleteContainer\<close> returns an error, \<open>deleteContainer\<close> returns that error and
  the service, with both tables, is unchanged. If either table has changed, the delete
  call was issued and succeeded.
\<close>

theorem C4_deleteContainer_tables_only_after_delete:
  assumes "deleteContainer e s c = (r, s', tr)"
  shows "(\<forall>sid err. StatusContainer sid (c_id c) \<in> set tr
              \<and> vci_StatusContainer e sid (c_id c) = Inl err
            \<longrightarrow> r = Returns (Some err) \<and> s' = s)
       \<and> (\<forall>sid err. StopContainer sid (c_id c) \<in> set tr
              \<and> vci_StopContainer e sid (c_id c) = Some err
            \<longrightarrow> r = Returns (Some err) \<and> s' = s)
       \<and> (\<forall>sid err. DeleteContainer sid (c_id c) \<in> set tr
              \<and> vci_DeleteContainer e sid (c_id c) = Some err
            \<longrightarrow> r = Returns (Some err) \<and> s' = s)
       \<and> (containers s' \<noteq> containers s \<or> processes s' \<noteq> processes s \<longrightarrow>
            (\<exists>sb. sandbox s = Some sb \<and> DeleteContainer (ID sb) (c_id c) \<in> set tr
                 \<and> vci_DeleteContainer e (ID sb) (c_id c) = None))"
  using assms unfolding deleteContainer_def Let_def
  by (auto split: if_splits option.splits sum.splits prod.splits)

text \<open>C4 on three runs: the status query fails, the stop fails, the delete fails.\<close>

theorem C4_deleteContainer_tables_only_after_delete_witness:
  "vci_StatusContainer test_env_status_fails ''sb1'' ''c1'' = Inl (Error ''status failed'')
   \<and> vci_StopContainer test_env_stop_fails ''sb1'' ''c1'' = Some (Error ''stop failed'')
   \<and> vci_DeleteContainer (test_env_delete_fails ''running'') ''sb1'' ''c1'' = Some (Error ''delete failed'')
   \<and> deleteContainer test_env_status_fails (test_service (test_sandbox ''running'')) test_container =
       (Returns (Some (Error ''status failed'')), test_service (test_sandbox ''running''),
        [StatusContainer ''sb1'' ''c1''])
   \<and> deleteContainer test_env_stop_fails (test_service (test_sandbox ''running'')) test_container =
       (Returns (Some (Error ''stop failed'')), test_service (test_sandbox ''running''),
        [StatusContainer ''sb1'' ''c1'', StopContainer ''sb1'' ''c1''])
   \<and> deleteContainer (test_env_delete_fails ''running'') (test_service (test_sandbox ''running'')) test_container =
       (Returns (Some (Error ''delete failed'')), test_service (test_sandbox ''running''),
        [StatusContainer ''sb1'' ''c1'', StopContainer ''sb1'' ''c1'', DeleteContainer ''sb1'' ''c1''])"
proof -
  have q: "vci_StatusContainer test_env_status_fails ''sb1'' ''c1'' = Inl (Error ''status failed'')"
    and p: "vci_StopContainer test_env_stop_fails ''sb1'' ''c1'' = Some (Error ''stop failed'')"
    and d: "vci_DeleteContainer (test_env_delete_fails ''running'') ''sb1'' ''c1'' = Some (Error ''delete failed'')"
    and i: "c_id test_container = ''c1''"
    by (simp_all add: fixture_defs)
  note a = C4_deleteContainer_tables_only_after_delete [OF run_delete_status_fails]
  note b = C4_deleteContainer_tables_only_after_delete [OF run_delete_stop_fails]
  note c = C4_deleteContainer_tables_only_after_delete [OF run_delete_running_delete_fails]
  show ?thesis
    using a b c q p d i
    by (simp add: run_delete_status_fails run_delete_stop_fails run_delete_running_delete_fails)
qed

section \<open>Claims about startContainer and startExec\<close>

text \<open>
  C5. For a container whose stdin, stdout and stderr paths are all empty,
  \<open>startContainer\<close> never builds the terminal adapter and never launches the I/O
  copy, whatever it returns. When it returns nil, it has closed the exit channel
  exactly once, right before launching the wait, and the channel, open before, is
  closed after.
\<close>

theorem C5_startContainer_no_io_closes_exit_channel:
  assumes "startContainer e s c = (r, s', c', tr)"
    and "c_stdin c = []" and "c_stdout c = []" and "c_stderr c = []"
  shows "(\<forall>i out err t. NewTtyIO i out err t \<notin> set tr)
       \<and> (\<forall>t st. Go_ioCopy t st \<notin> set tr)
       \<and> c_ttyio c' = c_ttyio c
       \<and> (r = Returns None \<longrightarrow>
            count_list tr Close_exitIOch = 1
            \<and> (\<exists>pre. tr = pre @ [Close_exitIOch, Go_wait (c_id c) []])
            \<and> c_exitIOch c = ChanOpen \<and> c_exitIOch c' = ChanClosed)"
  using assms unfolding startContainer_def Let_def
  by (auto split: if_splits option.splits sum.splits chan.splits prod.splits)

text \<open>C5 on a container without I/O paths.\<close>

theorem C5_startContainer_no_io_closes_exit_channel_witness:
  "c_stdin test_container = [] \<and> c_stdout test_container = [] \<and> c_stderr test_container = []
   \<and> fst (startContainer (test_env ''running'') (test_service (test_sandbox ''running'')) test_container)
       = Returns None
   \<and> count_list (snd (snd (snd (startContainer (test_env ''running'')
        (test_service (test_sandbox ''running'')) test_container)))) Close_exitIOch = 1
   \<and> NewTtyIO [] [] [] False \<notin> set (snd (snd (snd (startContainer (test_env ''running'')
        (test_service (test_sandbox ''running'')) test_container))))
   \<and> c_exitIOch (fst (snd (snd (startContainer (test_env ''running'')
        (test_service (test_sandbox ''running'')) test_container)))) = ChanClosed"
proof -
  have p: "c_stdin test_container = []" "c_stdout test_container = []" "c_stderr test_container = []"
    by (simp_all add: fixture_defs)
  note a = C5_startContainer_no_io_closes_exit_channel [OF run_startContainer_no_io p]
  show ?thesis
    using a p by (simp add: run_startContainer_no_io)
qed

text \<open>
  C6. When the container's type is unset or the service has no sandbox,
  \<open>startContainer\<close> returns an error whose message starts with \<open>Bug, \<close>, has
  called nothing (the trace is empty), and leaves the container, its status included,
  and the service as they were.
\<close>

theorem C6_startContainer_bug_error_no_side_effects:
  "cType c = [] \<or> sandbox s = None \<Longrightarrow>
   \<exists>m. startContainer e s c = (Returns (Some (Error (''Bug, '' @ m))), s, c, [])"
  by (auto simp: startContainer_def)

text \<open>C6 on a container without type and on a service without sandbox.\<close>

theorem C6_startContainer_bug_error_no_side_effects_witness:
  "cType (test_container\<lparr>cType := []\<rparr>) = []
   \<and> sandbox test_service_no_sandbox = None
   \<and> fst (snd (startContainer (test_env ''running'') (test_service (test_sandbox ''running''))
        (test_container\<lparr>cType := []\<rparr>))) = test_service (test_sandbox ''running'')
   \<and> snd (snd (snd (startContainer (test_env ''running'') (test_service (test_sandbox ''running''))
        (test_container\<lparr>cType := []\<rparr>)))) = []
   \<and> snd (snd (startContainer (test_env ''running'') test_service_no_sandbox test_container))
        = (test_container, [])"
proof -
  have h1: "cType (test_container\<lparr>cType := []\<rparr>) = []"
    and h2: "sandbox test_service_no_sandbox = None"
    by (simp_all add: fixture_defs)
  from h1 have a1: "cType (test_container\<lparr>cType := []\<rparr>) = []
      \<or> sandbox (test_service (test_sandbox ''running'')) = None" by simp
  from h2 have a2: "cType test_container = [] \<or> sandbox test_service_no_sandbox = None" by simp
  note a = C6_startContainer_bug_error_no_side_effects [OF a1, of "test_env ''running''"]
  note b = C6_startContainer_bug_error_no_side_effects [OF a2, of "test_env ''running''"]
  show ?thesis
    using a b h1 h2 by auto
qed

text \<open>
  C7, as stated, fails: for an exec entry that asked for a 24 by 80 terminal, when
  entering the container fails \<open>startExec\<close> returns before any resize is sent.
\<close>

theorem C7_startExec_enter_fails_counterexample:
  "getContainer (test_service test_sandbox_enter_fails) ''c1'' = Inr test_container
   \<and> getExec test_container ''e1'' = Inr test_exec
   \<and> height (e_tty test_exec) = 24 \<and> width (e_tty test_exec) = 80
   \<and> startExec (test_env ''running'') (test_service test_sandbox_enter_fails) ''c1'' ''e1'' =
       (Returns (Inl (Error ''cannot enter container c1, with err enter failed'')),
        test_service test_sandbox_enter_fails,
        [Sandbox_EnterContainer ''c1'' [''sh'']])"
  by (simp add: run_startExec_enter_fails)
     (simp add: getContainer_def getExec_def fixture_defs)

text \<open>
  C7, amended. In a run of \<open>startExec\<close> whose two lookups succeed and whose
  enter-container call succeeds, for an exec entry with height and width both nonzero:
  the resize with that height and width is sent to the sandbox, before any I/O stream
  is opened; and if the resize fails, \<open>startExec\<close> returns its error and does nothing
  after it (no stream opened, no adapter, no copy or wait launched).
\<close>

theorem C7_startExec_winsize:
  assumes "startExec e s containerID execID = (r, s', tr)"
    and "getContainer s containerID = Inr c"
    and "getExec c execID = Inr x"
    and "sandbox s = Some sb"
    and "cmds x = Some cmd"
    and "sb_EnterContainer sb containerID cmd = Inr proc"
    and "height (e_tty x) \<noteq> 0" and "width (e_tty x) \<noteq> 0"
  shows "Sandbox_WinsizeProcess (c_id c) (Token proc) (height (e_tty x)) (width (e_tty x)) \<in> set tr
       \<and> (\<forall>a b. Sandbox_IOStream a b \<in> set tr \<longrightarrow>
            happens_before
              (Sandbox_WinsizeProcess (c_id c) (Token proc) (height (e_tty x)) (width (e_tty x)))
              (Sandbox_IOStream a b) tr)
       \<and> (\<forall>err. sb_WinsizeProcess sb (c_id c) (Token proc) (height (e_tty x)) (width (e_tty x)) = Some err
            \<longrightarrow> r = Returns (Inl err)
              \<and> tr = [Sandbox_EnterContainer containerID cmd,
                      Sandbox_WinsizeProcess (c_id c) (Token proc) (height (e_tty x)) (width (e_tty x))])"
  using assms unfolding startExec_def Let_def happens_before_def
  by (auto split: if_splits option.splits sum.splits prod.splits)

text \<open>C7 amended, on a run whose resize fails and on a run that succeeds.\<close>

theorem C7_startExec_winsize_witness:
  "getContainer (test_service test_sandbox_winsize_fails) ''c1'' = Inr test_container
   \<and> getExec test_container ''e1'' = Inr test_exec
   \<and> cmds test_exec = Some [''sh'']
   \<and> height (e_tty test_exec) \<noteq> 0 \<and> width (e_tty test_exec) \<noteq> 0
   \<and> sb_WinsizeProcess test_sandbox_winsize_fails ''c1'' ''tok1'' 24 80 = Some (Error ''resize failed'')
   \<and> fst (startExec (test_env ''running'') (test_service test_sandbox_winsize_fails) ''c1'' ''e1'')
        = Returns (Inl (Error ''resize failed''))
   \<and> Sandbox_IOStream ''c1'' ''tok1''
        \<notin> set (snd (snd (startExec (test_env ''running'') (test_service test_sandbox_winsize_fails) ''c1'' ''e1'')))
   \<and> happens_before (Sandbox_WinsizeProcess ''c1'' ''tok1'' 24 80) (Sandbox_IOStream ''c1'' ''tok1'')
        (snd (snd (startExec (test_env ''running'') (test_service (test_sandbox ''running'')) ''c1'' ''e1'')))"
proof -
  have g1: "getContainer (test_service test_sandbox_winsize_fails) ''c1'' = Inr test_container"
    and g2: "getContainer (test_service (test_sandbox ''running'')) ''c1'' = Inr test_container"
    and x: "getExec test_container ''e1'' = Inr test_exec"
    and s1: "sandbox (test_service test_sandbox_winsize_fails) = Some test_sandbox_winsize_fails"
    and s2: "sandbox (test_service (test_sandbox ''running'')) = Some (test_sandbox ''running'')"
    and c: "cmds test_exec = Some [''sh'']"
    and e1: "sb_EnterContainer test_sandbox_winsize_fails ''c1'' [''sh''] = Inr \<lparr>Token = ''tok1''\<rparr>"
    and e2: "sb_EnterContainer (test_sandbox ''running'') ''c1'' [''sh''] = Inr \<lparr>Token = ''tok1''\<rparr>"
    and h: "height (e_tty test_exec) \<noteq> 0" and w: "width (e_tty test_exec) \<noteq> 0"
    and hw: "height (e_tty test_exec) = 24" "width (e_tty test_exec) = 80" "c_id test_container = ''c1''"
    and wf: "sb_WinsizeProcess test_sandbox_winsize_fails ''c1'' ''tok1'' 24 80 = Some (Error ''resize failed'')"
    by (simp_all add: getContainer_def getExec_def fixture_defs)
  note a = C7_startExec_winsize [OF run_startExec_winsize_fails g1 x s1 c e1 h w]
  note b = C7_startExec_winsize [OF run_startExec_ok g2 x s2 c e2 h w]
  show ?thesis
    using a b g1 x c h w hw wf by (simp add: run_startExec_winsize_fails run_startExec_ok)
qed

section \<open>Claims about the proxy type registry\<close>

text \<open>
  C8. Each of the four tokens parses to its proxy type, each of the four types formats
  to its token, parsing what a type formats to gives the type back, formatting what a
  token parses to gives the token back, and both are bijections between the four
  tokens and the four types. The value of the target before parsing plays no role.
\<close>

theorem C8_ProxyType_round_trip:
  "Set_ProxyType pType ''noProxy'' = (None, NoProxyType)
   \<and> Set_ProxyType pType ''kataProxy'' = (None, KataProxyType)
   \<and> Set_ProxyType pType ''kataBuiltInProxy'' = (None, KataBuiltInProxyType)
   \<and> Set_ProxyType pType ''noopProxy'' = (None, NoopProxyType)
   \<and> String_ProxyType NoProxyType = ''noProxy''
   \<and> String_ProxyType KataProxyType = ''kataProxy''
   \<and> String_ProxyType KataBuiltInProxyType = ''kataBuiltInProxy''
   \<and> String_ProxyType NoopProxyType = ''noopProxy''
   \<and> (\<forall>t \<in> set proxy_types. Set_ProxyType pType (String_ProxyType t) = (None, t))
   \<and> (\<forall>text \<in> set proxy_tokens.
         fst (Set_ProxyType pType text) = None
         \<and> snd (Set_ProxyType pType text) \<in> set proxy_types
         \<and> String_ProxyType (snd (Set_ProxyType pType text)) = text)
   \<and> bij_betw String_ProxyType (set proxy_types) (set proxy_tokens)
   \<and> bij_betw (\<lambda>text. snd (Set_ProxyType pType text)) (set proxy_tokens) (set proxy_types)"
proof (intro conjI)
  show "bij_betw String_ProxyType (set proxy_types) (set proxy_tokens)"
    by (auto simp: bij_betw_def inj_on_def proxy_types_def proxy_tokens_def)
  show "bij_betw (\<lambda>text. snd (Set_ProxyType pType text)) (set proxy_tokens) (set proxy_types)"
    by (auto simp: bij_betw_def inj_on_def proxy_types_def proxy_tokens_def Set_ProxyType_def)
qed (simp_all add: Set_ProxyType_def proxy_types_def proxy_tokens_def)

text \<open>C8 on the token \<open>kataBuiltInProxy\<close>.\<close>

theorem C8_ProxyType_round_trip_witness:
  "KataBuiltInProxyType \<in> set proxy_types
   \<and> ''kataBuiltInProxy'' \<in> set proxy_tokens
   \<and> Set_ProxyType UnsetProxyType (String_ProxyType KataBuiltInProxyType) = (None, KataBuiltInProxyType)
   \<and> String_ProxyType (snd (Set_ProxyType UnsetProxyType ''kataBuiltInProxy'')) = ''kataBuiltInProxy''"
proof -
  have m1: "KataBuiltInProxyType \<in> set proxy_types" by (simp add: proxy_types_def)
  have m2: "''kataBuiltInProxy'' \<in> set proxy_tokens" by (simp add: proxy_tokens_def)
  from C8_ProxyType_round_trip [of UnsetProxyType] m1 m2 show ?thesis by blast
qed

text \<open>
  C9. Parsing \<open>unknown\<close> into an unset target returns an error and leaves the target
  unset, which is none of the four proxy types; constructing a proxy from the unset
  type returns the default variant and no error.
\<close>

theorem C9_unknown_token_rejected_unset_type_constructible:
  "fst (Set_ProxyType UnsetProxyType ''unknown'') \<noteq> None
   \<and> snd (Set_ProxyType UnsetProxyType ''unknown'') = UnsetProxyType
   \<and> snd (Set_ProxyType UnsetProxyType ''unknown'') \<notin> set proxy_types
   \<and> newProxy dflt UnsetProxyType = Inr dflt"
  by (simp add: Set_ProxyType_def proxy_types_def)

section \<open>Claims about IsEphemeralStorage\<close>

text \<open>
  C10. \<open>IsEphemeralStorage path\<close> is true exactly when the path, split on the
  separator \<open>/\<close>, has at least two components and the second-to-last of them is
  \<open>kubernetes.io~empty-dir\<close>. In terms of the bytes of the path: it has the form
  \<open>kubernetes.io~empty-dir/last\<close> or \<open>pre/kubernetes.io~empty-dir/last\<close> where
  \<open>last\<close> holds no separator. In particular a path without any separator is never
  ephemeral storage.
\<close>

theorem C10_IsEphemeralStorage_second_to_last:
  "(IsEphemeralStorage path \<longleftrightarrow>
      (2 \<le> length (Split path (CHR ''/'')) \<and>
       Split path (CHR ''/'') ! (length (Split path (CHR ''/'')) - 2) = ''kubernetes.io~empty-dir''))
   \<and> (IsEphemeralStorage path \<longleftrightarrow>
      (\<exists>pre last_part. CHR ''/'' \<notin> set last_part \<and>
          (path = ''kubernetes.io~empty-dir/'' @ last_part \<or>
           path = pre @ ''/kubernetes.io~empty-dir/'' @ last_part)))
   \<and> (CHR ''/'' \<notin> set path \<longrightarrow> \<not> IsEphemeralStorage path)"
proof (intro conjI)
  show "IsEphemeralStorage path \<longleftrightarrow>
      (2 \<le> length (Split path (CHR ''/'')) \<and>
       Split path (CHR ''/'') ! (length (Split path (CHR ''/'')) - 2) = ''kubernetes.io~empty-dir'')"
    using IsEphemeralStorage_iff_Split [of path] by (simp add: k8sEmptyDir_def)
next
  have "IsEphemeralStorage path \<longleftrightarrow>
      (\<exists>pre last_part. CHR ''/'' \<notin> set last_part \<and>
          (path = k8sEmptyDir @ ''/'' @ last_part \<or>
           path = pre @ ''/'' @ k8sEmptyDir @ ''/'' @ last_part))"
    using IsEphemeralStorage_shape_intro IsEphemeralStorage_shape_elim by blast
  then show "IsEphemeralStorage path \<longleftrightarrow>
      (\<exists>pre last_part. CHR ''/'' \<notin> set last_part \<and>
          (path = ''kubernetes.io~empty-dir/'' @ last_part \<or>
           path = pre @ ''/kubernetes.io~empty-dir/'' @ last_part))"
    by (simp add: k8sEmptyDir_def)
next
  show "CHR ''/'' \<notin> set path \<longrightarrow> \<not> IsEphemeralStorage path"
    by (simp add: IsEphemeralStorage_iff_Split Split_no_sep)
qed

theorem C10_IsEphemeralStorage_witness:
  "IsEphemeralStorage ''/var/lib/kubelet/pods/p1/volumes/kubernetes.io~empty-dir/cache''
   \<and> CHR ''/'' \<notin> set ''kubernetes.io~empty-dir''
   \<and> \<not> IsEphemeralStorage ''kubernetes.io~empty-dir''"
proof -
  have a: "CHR ''/'' \<notin> set ''cache''" by simp
  have b: "CHR ''/'' \<notin> set ''kubernetes.io~empty-dir''" by simp
  have "IsEphemeralStorage ''/var/lib/kubelet/pods/p1/volumes/kubernetes.io~empty-dir/cache''"
    using C10_IsEphemeralStorage_second_to_last
      [of "''/var/lib/kubelet/pods/p1/volumes/kubernetes.io~empty-dir/cache''"] a
    by (metis append_Cons append_Nil)
  moreover have "\<not> IsEphemeralStorage ''kubernetes.io~empty-dir''"
    using C10_IsEphemeralStorage_second_to_last [of "''kubernetes.io~empty-dir''"] b by blast
  ultimately show ?thesis using b by blast
qed

end
